theory Spec2Isabelle
  imports Complex_Main "HOL-Library.Multiset" "HOL-Library.List_Lexorder"
begin

section \<open>Values handed to the pipeline\<close>

text \<open>
  A JavaScript string is its sequence of UTF-16 code units, each a number below
  65536: \<open>A\<close> is 65, \<open>a\<close> is 97, U+00C9 (capital E with acute accent) is 201.
\<close>

type_synonym jsstring = "nat list"

text \<open>
  The filter, sort and paginate methods of \<^verbatim>\<open>main.js\<close> all start with the guard
  \<^verbatim>\<open>if (!x || !Array.isArray(x)) return [];\<close>, so the argument is modelled as a
  JavaScript value that may or may not be an array. Page numbers and page sizes
  are integers; prices are rational numbers (every finite JavaScript number is
  one).
\<close>

datatype 'a jsval =
    JSUndefined
  | JSNull
  | JSNumber int
  | JSString jsstring
  | JSArray "'a list"

fun truthy :: "'a jsval \<Rightarrow> bool" where
  "truthy JSUndefined = False"
| "truthy JSNull = False"
| "truthy (JSNumber n) = (n \<noteq> 0)"
| "truthy (JSString s) = (s \<noteq> [])"
| "truthy (JSArray xs) = True"

fun isArray :: "'a jsval \<Rightarrow> bool" where
  "isArray (JSArray xs) = True"
| "isArray _ = False"

fun elems :: "'a jsval \<Rightarrow> 'a list" where
  "elems (JSArray xs) = xs"
| "elems _ = []"

text \<open>
  A product as the pipeline reads it: \<^verbatim>\<open>id\<close>, \<^verbatim>\<open>title\<close> and \<^verbatim>\<open>price\<close>; an absent
  field is \<open>None\<close>. The remaining fields (description, category, images) are only
  rendered, never read by filter, sort or pagination.
\<close>

record product =
  id_field :: int
  title :: "jsstring option"
  price :: "rat option"

section \<open>Built-ins of the host\<close>

text \<open>
  Two string methods the pipeline calls are not code of the repository and
  cannot be written out: \<^verbatim>\<open>String.prototype.toLowerCase\<close> follows the case
  mappings of the Unicode character database, and
  \<^verbatim>\<open>String.prototype.localeCompare\<close> (negative, zero or positive) follows the
  locale and the collation tables of the host. Every function of the model that
  calls one of them takes the host as its first argument, and the theorems hold
  for every host, under the assumptions they state.
\<close>

record host =
  localeCompare :: "jsstring \<Rightarrow> jsstring \<Rightarrow> int"
  toLowerCase :: "jsstring \<Rightarrow> jsstring"

section \<open>PaginationController\<close>

record PaginationController =
  currentPage :: int
  pageSize :: int
  totalItems :: int
  totalPages :: int

text \<open>The constructor: page 1, page size 10, nothing counted yet.\<close>

definition new_PaginationController :: PaginationController where
  "new_PaginationController =
     \<lparr>currentPage = 1, pageSize = 10, totalItems = 0, totalPages = 0\<rparr>"

text \<open>
  \<^verbatim>\<open>Math.ceil(a / b)\<close> for a count \<open>a \<ge> 0\<close> and a page size \<open>b > 0\<close>. The page size
  is 10 at construction and is only ever assigned by \<^verbatim>\<open>changePageSize\<close>, from
  \<open>{5, 10, 20}\<close>, so the divisor is positive in every state of the program; the
  theorems below state that as \<open>0 < pageSize\<close>.
\<close>

definition math_ceil_div :: "int \<Rightarrow> int \<Rightarrow> int" where
  "math_ceil_div a b = - ((- a) div b)"

text \<open>
  \<^verbatim>\<open>Array.prototype.slice(start, end)\<close>: a negative index counts from the end of
  the array, both indices are cut to \<open>[0, length]\<close>, and an empty range gives the
  empty array.
\<close>

definition array_slice :: "'a list \<Rightarrow> int \<Rightarrow> int \<Rightarrow> 'a list" where
  "array_slice xs startIndex endIndex =
     (let len = int (length xs);
          k = (if startIndex < 0 then max (len + startIndex) 0 else min startIndex len);
          final = (if endIndex < 0 then max (len + endIndex) 0 else min endIndex len)
      in take (nat (final - k)) (drop (nat k) xs))"

text \<open>
  \<^verbatim>\<open>getPagedData(data)\<close> returns the page and mutates the controller; the model
  returns both. The four assignments of the source are the four \<open>pc\<close> steps.
\<close>

definition getPagedData ::
  "'a jsval \<Rightarrow> PaginationController \<Rightarrow> 'a jsval \<times> PaginationController" where
  "getPagedData data pc =
     (if \<not> truthy data \<or> \<not> isArray data then (JSArray [], pc)
      else
        let pc1 = pc\<lparr>totalItems := int (length (elems data))\<rparr>;
            pc2 = pc1\<lparr>totalPages := math_ceil_div (totalItems pc1) (pageSize pc1)\<rparr>;
            pc3 = (if currentPage pc2 > totalPages pc2 \<and> totalPages pc2 > 0
                   then pc2\<lparr>currentPage := totalPages pc2\<rparr> else pc2);
            pc4 = (if currentPage pc3 < 1 then pc3\<lparr>currentPage := 1\<rparr> else pc3);
            startIndex = (currentPage pc4 - 1) * pageSize pc4;
            endIndex = startIndex + pageSize pc4
        in (JSArray (array_slice (elems data) startIndex endIndex), pc4))"

text \<open>
  The components notify the dashboard through callbacks. A method of the model
  returns the signal it raises (\<open>None\<close> when it returns before the callback);
  the dashboard registers a handler for every signal in
  \<^verbatim>\<open>initializeComponents\<close>.
\<close>

datatype signal = SearchChange | PageChange | PageSizeChange | SortChange

definition goToPage ::
  "int \<Rightarrow> PaginationController \<Rightarrow> PaginationController \<times> signal option" where
  "goToPage page pc =
     (if page < 1 \<or> page > totalPages pc then (pc, None)
      else (pc\<lparr>currentPage := page\<rparr>, Some PageChange))"

definition validSizes :: "int list" where
  "validSizes = [5, 10, 20]"

definition changePageSize ::
  "int \<Rightarrow> PaginationController \<Rightarrow> PaginationController \<times> signal option" where
  "changePageSize sz pc =
     (if sz \<notin> set validSizes then (pc, None)
      else (pc\<lparr>pageSize := sz, currentPage := 1\<rparr>, Some PageSizeChange))"

section \<open>SearchFilter\<close>

text \<open>
  \<^verbatim>\<open>includes\<close> is the substring test on code units. \<^verbatim>\<open>trim\<close> drops, at both ends,
  the code units ECMAScript counts as white space or line terminators: tab, line
  feed, vertical tab, form feed, carriage return, space, no-break space, the
  Unicode space separators (U+1680, U+2000 to U+200A, U+202F, U+205F, U+3000),
  the line and paragraph separators (U+2028, U+2029) and the byte order mark
  (U+FEFF).
\<close>

fun includes_str :: "jsstring \<Rightarrow> jsstring \<Rightarrow> bool" where
  "includes_str [] sub = (sub = [])"
| "includes_str (c # cs) sub = (take (length sub) (c # cs) = sub \<or> includes_str cs sub)"

definition is_space :: "nat \<Rightarrow> bool" where
  "is_space c \<longleftrightarrow>
     c = 9 \<or> c = 10 \<or> c = 11 \<or> c = 12 \<or> c = 13 \<or> c = 32 \<or> c = 160 \<or> c = 5760
     \<or> (8192 \<le> c \<and> c \<le> 8202) \<or> c = 8232 \<or> c = 8233 \<or> c = 8239 \<or> c = 8287
     \<or> c = 12288 \<or> c = 65279"

definition trim :: "jsstring \<Rightarrow> jsstring" where
  "trim s = rev (dropWhile is_space (rev (dropWhile is_space s)))"

text \<open>
  \<^verbatim>\<open>filter(products, term = this.searchTerm)\<close>. The term argument may be left out
  (\<^verbatim>\<open>undefined\<close>), be \<^verbatim>\<open>null\<close>, or be a string. The first argument of the model
  after the host is the stored \<^verbatim>\<open>this.searchTerm\<close>, which the default parameter
  takes when the term is left out. \<^verbatim>\<open>!term\<close> holds for \<^verbatim>\<open>null\<close> and for the empty
  string. The elements of a collection are product objects, so of
  \<^verbatim>\<open>!product || !product.title\<close> only the second test can hold: for an absent
  title and for the empty string.
\<close>

datatype term_arg = TermUndefined | TermNull | TermString jsstring

fun falsy_term :: "term_arg \<Rightarrow> bool" where
  "falsy_term TermUndefined = True"
| "falsy_term TermNull = True"
| "falsy_term (TermString t) = (t = [])"

fun term_string :: "term_arg \<Rightarrow> jsstring" where
  "term_string (TermString t) = t"
| "term_string _ = []"

definition filter_products ::
  "host \<Rightarrow> jsstring \<Rightarrow> product jsval \<Rightarrow> term_arg \<Rightarrow> product jsval" where
  "filter_products hst searchTerm products term_arg =
     (let trm = (case term_arg of TermUndefined \<Rightarrow> TermString searchTerm | _ \<Rightarrow> term_arg) in
      if \<not> truthy products \<or> \<not> isArray products then JSArray []
      else if falsy_term trm \<or> length (term_string trm) = 0 then products
      else
        let searchTermLower = toLowerCase hst (term_string trm) in
        JSArray (filter
          (\<lambda>product.
             case title product of
               None \<Rightarrow> False
             | Some t \<Rightarrow>
                 if t = [] then False
                 else includes_str (toLowerCase hst t) searchTermLower)
          (elems products)))"

section \<open>SortController\<close>

datatype sort_field = Price | Title

datatype direction = Asc | Desc

record sort_config =
  field :: "sort_field option"
  direction :: direction

definition new_SortController :: sort_config where
  "new_SortController = \<lparr>field = None, direction = Asc\<rparr>"

text \<open>
  \<^verbatim>\<open>Array.prototype.sort(compareFn)\<close> is a stable sort: with a consistent
  comparator the result is the one ordering that is sorted under the comparator
  and keeps tied elements in their order of arrival. The model computes it by
  inserting each element, from the right, in front of the first element it does
  not compare greater than. A comparator returns a number, of which the sort
  reads the sign.
\<close>

fun insert_sorted ::
  "('a \<Rightarrow> 'a \<Rightarrow> 'n :: linordered_idom) \<Rightarrow> 'a \<Rightarrow> 'a list \<Rightarrow> 'a list" where
  "insert_sorted cmp x [] = [x]"
| "insert_sorted cmp x (y # ys) =
     (if cmp x y \<le> 0 then x # y # ys else y # insert_sorted cmp x ys)"

definition array_sort :: "('a \<Rightarrow> 'a \<Rightarrow> 'n :: linordered_idom) \<Rightarrow> 'a list \<Rightarrow> 'a list" where
  "array_sort cmp xs = foldr (insert_sorted cmp) xs []"

text \<open>
  What ECMAScript asks of a comparator for the order of the result to be
  defined: equal arguments tie, swapping the arguments swaps the sign, and the
  order is transitive.
\<close>

definition consistent_comparator :: "('a \<Rightarrow> 'a \<Rightarrow> 'n :: linordered_idom) \<Rightarrow> bool" where
  "consistent_comparator cmp \<longleftrightarrow>
     (\<forall>a. cmp a a = 0) \<and>
     (\<forall>a b. cmp a b < 0 \<longleftrightarrow> 0 < cmp b a) \<and>
     (\<forall>a b c. cmp a b \<le> 0 \<and> cmp b c \<le> 0 \<longrightarrow> cmp a c \<le> 0)"

text \<open>
  The comparator of \<^verbatim>\<open>sortByPrice\<close>. \<^verbatim>\<open>a.price || 0\<close> reads an absent price (and
  the price 0) as 0. The difference of two prices is taken exactly; the
  floating-point difference of the source has the same sign.
\<close>

definition price_or_0 :: "product \<Rightarrow> rat" where
  "price_or_0 a = (case price a of None \<Rightarrow> 0 | Some v \<Rightarrow> if v = 0 then 0 else v)"

definition price_compare :: "direction \<Rightarrow> product \<Rightarrow> product \<Rightarrow> rat" where
  "price_compare d a b =
     (let priceA = price_or_0 a;
          priceB = price_or_0 b
      in if d = Asc then priceA - priceB else priceB - priceA)"

definition sortByPrice :: "product jsval \<Rightarrow> direction \<Rightarrow> product jsval" where
  "sortByPrice products d =
     (if \<not> truthy products \<or> \<not> isArray products then JSArray []
      else JSArray (array_sort (price_compare d) (elems products)))"

text \<open>
  The comparator of \<^verbatim>\<open>sortByName\<close>; \<^verbatim>\<open>a.title || ''\<close> reads an absent title as the
  empty string. ECMAScript requires \<^verbatim>\<open>localeCompare\<close> to be a consistent
  comparator on all strings; theorems that need this assume
  \<open>consistent_comparator (localeCompare hst)\<close>.
\<close>

definition title_or_empty :: "product \<Rightarrow> jsstring" where
  "title_or_empty a = (case title a of None \<Rightarrow> [] | Some t \<Rightarrow> if t = [] then [] else t)"

definition name_compare :: "host \<Rightarrow> direction \<Rightarrow> product \<Rightarrow> product \<Rightarrow> int" where
  "name_compare hst d a b =
     (let titleA = toLowerCase hst (title_or_empty a);
          titleB = toLowerCase hst (title_or_empty b)
      in if d = Asc then localeCompare hst titleA titleB else localeCompare hst titleB titleA)"

definition sortByName :: "host \<Rightarrow> product jsval \<Rightarrow> direction \<Rightarrow> product jsval" where
  "sortByName hst products d =
     (if \<not> truthy products \<or> \<not> isArray products then JSArray []
      else JSArray (array_sort (name_compare hst d) (elems products)))"

text \<open>
  \<^verbatim>\<open>toggleSort(field)\<close> takes \<^verbatim>\<open>'price'\<close> or \<^verbatim>\<open>'title'\<close> (its two callers are the
  click listeners of the two sort buttons) and always reaches the callback.
\<close>

definition toggleSort :: "sort_field \<Rightarrow> sort_config \<Rightarrow> sort_config \<times> signal option" where
  "toggleSort f cs =
     (if field cs = Some f
      then (cs\<lparr>direction := (if direction cs = Asc then Desc else Asc)\<rparr>, Some SortChange)
      else (cs\<lparr>field := Some f, direction := Asc\<rparr>, Some SortChange))"

definition applySorting :: "host \<Rightarrow> sort_config \<Rightarrow> product jsval \<Rightarrow> product jsval" where
  "applySorting hst cs products =
     (case field cs of
        None \<Rightarrow> products
      | Some Price \<Rightarrow> sortByPrice products (direction cs)
      | Some Title \<Rightarrow> sortByName hst products (direction cs))"

definition clearSort :: "sort_config \<Rightarrow> sort_config" where
  "clearSort cs = \<lparr>field = None, direction = Asc\<rparr>"

subsection \<open>Arrays by reference\<close>

text \<open>
  To state that \<^verbatim>\<open>sortByPrice\<close> leaves its argument alone, arrays live in a heap
  (a list of arrays; an address is an index). \<^verbatim>\<open>[...products]\<close> allocates a copy
  at a fresh address, and \<^verbatim>\<open>sort\<close> overwrites the array it is called on and
  returns its address.
\<close>

type_synonym 'a heap = "'a list list"

definition spread_copy :: "'a heap \<Rightarrow> nat \<Rightarrow> nat \<times> 'a heap" where
  "spread_copy h a = (length h, h @ [h ! a])"

definition sort_in_place ::
  "('a \<Rightarrow> 'a \<Rightarrow> 'n :: linordered_idom) \<Rightarrow> 'a heap \<Rightarrow> nat \<Rightarrow> nat \<times> 'a heap" where
  "sort_in_place cmp h a = (a, h[a := array_sort cmp (h ! a)])"

definition sortByPrice_ref :: "product heap \<Rightarrow> nat \<Rightarrow> direction \<Rightarrow> nat \<times> product heap" where
  "sortByPrice_ref h products d =
     (let (copy, h1) = spread_copy h products
      in sort_in_place (price_compare d) h1 copy)"

section \<open>DashboardController\<close>

record DashboardController =
  products :: "product list"
  filteredProducts :: "product jsval"
  currentPageProducts :: "product jsval"
  searchTerm :: jsstring
  currentSort :: sort_config
  paginationController :: PaginationController

definition new_DashboardController :: DashboardController where
  "new_DashboardController =
     \<lparr>products = [], filteredProducts = JSArray [], currentPageProducts = JSArray [],
      searchTerm = [], currentSort = new_SortController,
      paginationController = new_PaginationController\<rparr>"

definition updateDisplay :: "DashboardController \<Rightarrow> DashboardController" where
  "updateDisplay s =
     (let (page, pc) = getPagedData (filteredProducts s) (paginationController s)
      in s\<lparr>currentPageProducts := page, paginationController := pc\<rparr>)"

definition applyFilters :: "host \<Rightarrow> DashboardController \<Rightarrow> DashboardController" where
  "applyFilters hst s =
     (let filtered0 = JSArray (products s);
          filtered1 = (if searchTerm s \<noteq> []
                       then filter_products hst (searchTerm s) filtered0
                              (TermString (searchTerm s))
                       else filtered0);
          filtered2 = applySorting hst (currentSort s) filtered1
      in updateDisplay (s\<lparr>filteredProducts := filtered2\<rparr>))"

text \<open>The callbacks registered by \<^verbatim>\<open>initializeComponents\<close>.\<close>

fun dispatch :: "host \<Rightarrow> signal option \<Rightarrow> DashboardController \<Rightarrow> DashboardController" where
  "dispatch hst None s = s"
| "dispatch hst (Some SearchChange) s = applyFilters hst s"
| "dispatch hst (Some PageChange) s = updateDisplay s"
| "dispatch hst (Some PageSizeChange) s = applyFilters hst s"
| "dispatch hst (Some SortChange) s = applyFilters hst s"

text \<open>
  The listeners the components attach to the page: the search box, the two sort
  buttons, the page-size selector, and the buttons of the pagination bar
  (a numbered page, previous, next).
\<close>

datatype ui_event =
    SearchInput jsstring
  | SortPriceClick
  | SortNameClick
  | PageSizeSelect int
  | PageButtonClick int
  | PrevClick
  | NextClick

fun handle :: "host \<Rightarrow> ui_event \<Rightarrow> DashboardController \<Rightarrow> DashboardController" where
  "handle hst (SearchInput v) s = dispatch hst (Some SearchChange) (s\<lparr>searchTerm := trim v\<rparr>)"
| "handle hst SortPriceClick s =
     (let (cs, sg) = toggleSort Price (currentSort s) in dispatch hst sg (s\<lparr>currentSort := cs\<rparr>))"
| "handle hst SortNameClick s =
     (let (cs, sg) = toggleSort Title (currentSort s) in dispatch hst sg (s\<lparr>currentSort := cs\<rparr>))"
| "handle hst (PageSizeSelect n) s =
     (let (pc, sg) = changePageSize n (paginationController s)
      in dispatch hst sg (s\<lparr>paginationController := pc\<rparr>))"
| "handle hst (PageButtonClick n) s =
     (let (pc, sg) = goToPage n (paginationController s)
      in dispatch hst sg (s\<lparr>paginationController := pc\<rparr>))"
| "handle hst PrevClick s =
     (if currentPage (paginationController s) > 1
      then (let (pc, sg) = goToPage (currentPage (paginationController s) - 1) (paginationController s)
            in dispatch hst sg (s\<lparr>paginationController := pc\<rparr>))
      else s)"
| "handle hst NextClick s =
     (if currentPage (paginationController s) < totalPages (paginationController s)
      then (let (pc, sg) = goToPage (currentPage (paginationController s) + 1) (paginationController s)
            in dispatch hst sg (s\<lparr>paginationController := pc\<rparr>))
      else s)"

text \<open>
  \<^verbatim>\<open>init()\<close> after a successful fetch: the products are stored and the full chain
  runs. The states of a session are the constructor's state and every state
  reached from it by a successful load or a listener.
\<close>

definition init_loaded :: "host \<Rightarrow> product list \<Rightarrow> DashboardController \<Rightarrow> DashboardController" where
  "init_loaded hst ps s = applyFilters hst (s\<lparr>products := ps\<rparr>)"

inductive reachable :: "host \<Rightarrow> DashboardController \<Rightarrow> bool"
  for hst :: host where
  constructed: "reachable hst new_DashboardController"
| loaded: "reachable hst s \<Longrightarrow> reachable hst (init_loaded hst ps s)"
| listened: "reachable hst s \<Longrightarrow> reachable hst (handle hst e s)"

text \<open>
  The stored \<^verbatim>\<open>filteredProducts\<close> is up to date when it is what the full chain
  (\<^verbatim>\<open>applyFilters\<close>) would store for the current products, search term and sort.
\<close>

definition up_to_date :: "host \<Rightarrow> DashboardController \<Rightarrow> bool" where
  "up_to_date hst s \<longleftrightarrow> filteredProducts s = filteredProducts (applyFilters hst s)"

section \<open>Letter case, stated apart from the code\<close>





text \<open>
  On a string of code units below 256, \<^verbatim>\<open>toLowerCase\<close> of ECMAScript is the simple
  lower-case mapping of Unicode applied to each code unit (the mappings that
  change the length of a string or depend on the context start at U+0130). A
  host that does so \<open>folds_latin1\<close>.
\<close>

definition latin1_lower_unit :: "nat \<Rightarrow> nat" where
  "latin1_lower_unit c =
     (if 65 \<le> c \<and> c \<le> 90 then c + 32
      else if 192 \<le> c \<and> c \<le> 214 then c + 32
      else if 216 \<le> c \<and> c \<le> 222 then c + 32
      else c)"


section \<open>Example data\<close>

text \<open>
  A host for the examples: strings are compared code unit by code unit, one
  consistent comparator among those \<^verbatim>\<open>localeCompare\<close> may be, and lower-cased
  code unit by code unit with the mapping above.
\<close>

definition codeunit_compare :: "jsstring \<Rightarrow> jsstring \<Rightarrow> int" where
  "codeunit_compare a b = (if a < b then - 1 else if a = b then 0 else 1)"

definition example_host :: host where
  "example_host = \<lparr>localeCompare = codeunit_compare, toLowerCase = map latin1_lower_unit\<rparr>"

text \<open>The code units of a literal of ASCII characters.\<close>

definition code_units :: "string \<Rightarrow> jsstring" where
  "code_units s = map of_char s"

text \<open>
  Products for the examples: two shirts at the same price whose titles differ
  only in case, a product without a price, a product without a title, and two
  products titled CAFE and cafe with an acute accent on the E, whose titles
  differ in the case of every letter, the accented one included (201 is the
  capital, 233 the small letter).
\<close>

definition shirt_a :: product where
  "shirt_a = \<lparr>id_field = 1, title = Some (code_units ''Shirt''), price = Some 30\<rparr>"

definition unpriced :: product where
  "unpriced = \<lparr>id_field = 2, title = Some (code_units ''Lamp''), price = None\<rparr>"

definition shirt_b :: product where
  "shirt_b = \<lparr>id_field = 3, title = Some (code_units ''SHIRT''), price = Some 30\<rparr>"

definition untitled :: product where
  "untitled = \<lparr>id_field = 4, title = None, price = Some 10\<rparr>"

definition cafe_capital :: product where
  "cafe_capital = \<lparr>id_field = 5, title = Some [67, 65, 70, 201], price = Some (5 / 2)\<rparr>"

definition cafe_small :: product where
  "cafe_small = \<lparr>id_field = 6, title = Some [99, 97, 102, 233], price = Some (5 / 2)\<rparr>"

lemmas example_products =
  shirt_a_def unpriced_def shirt_b_def untitled_def cafe_capital_def cafe_small_def

text \<open>
  A session for the examples: six products are loaded, the page size is set to
  5 and the price button is clicked once, which leaves two pages sorted by
  ascending price.
\<close>

definition example_session :: DashboardController where
  "example_session =
     handle example_host SortPriceClick
       (handle example_host (PageSizeSelect 5)
         (init_loaded example_host
            [shirt_a, unpriced, shirt_b, untitled, shirt_b, unpriced]
            new_DashboardController))"

text \<open>
  A state that no session reaches: the search term of the example session
  overwritten without running the chain, so that the stored collection is stale.
\<close>

definition stale_session :: DashboardController where
  "stale_session = example_session\<lparr>searchTerm := code_units ''lamp''\<rparr>"

section \<open>Pagination: page count, clamping and the slice\<close>

lemma math_ceil_div_ceiling:
  "math_ceil_div a b = \<lceil>real_of_int a / real_of_int b\<rceil>"
  by (simp add: math_ceil_div_def ceiling_divide_eq_div)

lemma math_ceil_div_pos: "0 < b \<Longrightarrow> 0 < a \<Longrightarrow> 0 < math_ceil_div a b"
  unfolding math_ceil_div_ceiling by simp

lemma math_ceil_div_zero: "math_ceil_div 0 b = 0"
  by (simp add: math_ceil_div_def)

lemma map_nth_upt_take_drop:
  "map ((!) xs) [s ..< min e (length xs)] = take (e - s) (drop s xs)"
proof (rule nth_equalityI)
  show "length (map ((!) xs) [s ..< min e (length xs)]) = length (take (e - s) (drop s xs))"
    by (auto simp: min_def)
next
  fix i
  assume "i < length (map ((!) xs) [s ..< min e (length xs)])"
  then have "i < e - s" and "s + i < length xs"
    by (simp_all add: min_def split: if_splits)
  then show "map ((!) xs) [s ..< min e (length xs)] ! i = take (e - s) (drop s xs) ! i"
    by simp
qed

lemma array_slice_nonneg:
  assumes "0 \<le> s" "0 \<le> e"
  shows "array_slice xs s e = map ((!) xs) [nat s ..< min (nat e) (length xs)]"
proof -
  have "array_slice xs s e = take (nat e - nat s) (drop (nat s) xs)"
    using assms by (auto simp: array_slice_def Let_def min_def nat_diff_distrib')
  then show ?thesis by (simp only: map_nth_upt_take_drop)
qed

lemma getPagedData_array:
  "getPagedData (JSArray xs) pc =
     (let n = int (length xs); tp = math_ceil_div n (pageSize pc);
          cp1 = (if currentPage pc > tp \<and> tp > 0 then tp else currentPage pc);
          cp = (if cp1 < 1 then 1 else cp1)
      in (JSArray (array_slice xs ((cp - 1) * pageSize pc) ((cp - 1) * pageSize pc + pageSize pc)),
          pc\<lparr>totalItems := n, totalPages := tp, currentPage := cp\<rparr>))"
  by (simp add: getPagedData_def Let_def)

text \<open>
  Claim C2, as stated, fails on the empty collection. The upper clamp of
  \<^verbatim>\<open>getPagedData\<close> is guarded by \<^verbatim>\<open>this.totalPages > 0\<close>: with no items the page
  count is 0 and a current page of 3 stays 3, above \<open>max(totalPages, 1) = 1\<close>.
\<close>

theorem C2_counterexample:
  "\<not> (1 \<le> currentPage (snd (getPagedData (JSArray ([] :: product list))
              \<lparr>currentPage = 3, pageSize = 10, totalItems = 25, totalPages = 3\<rparr>))
      \<and> currentPage (snd (getPagedData (JSArray ([] :: product list))
              \<lparr>currentPage = 3, pageSize = 10, totalItems = 25, totalPages = 3\<rparr>))
          \<le> max (totalPages (snd (getPagedData (JSArray ([] :: product list))
              \<lparr>currentPage = 3, pageSize = 10, totalItems = 25, totalPages = 3\<rparr>))) 1)"
  by (simp add: getPagedData_array math_ceil_div_def)

text \<open>
  Claim C2, amended: after \<^verbatim>\<open>getPagedData\<close> on an array, with a positive page
  size, the current page is at least 1; on a non-empty collection there is at
  least one page and the current page is the old one clamped into
  \<open>[1, totalPages]\<close>; on the empty collection the page count is 0 and only the
  lower bound is enforced (the current page becomes \<open>max(1, currentPage)\<close>).
  No value is rejected.
\<close>

theorem getPagedData_clamps_currentPage:
  assumes "0 < pageSize pc" and "getPagedData (JSArray xs) pc = (page, pc')"
  shows "1 \<le> currentPage pc'
     \<and> (xs \<noteq> [] \<longrightarrow> 1 \<le> totalPages pc'
           \<and> currentPage pc' = max 1 (min (currentPage pc) (totalPages pc')))
     \<and> (xs = [] \<longrightarrow> totalPages pc' = 0 \<and> currentPage pc' = max 1 (currentPage pc))"
proof (cases "xs = []")
  case True
  with assms(2) show ?thesis
    by (auto simp: getPagedData_array math_ceil_div_zero Let_def)
next
  case False
  then have "0 < math_ceil_div (int (length xs)) (pageSize pc)"
    using assms(1) by (simp add: math_ceil_div_pos)
  with False assms(2) show ?thesis
    by (auto simp: getPagedData_array Let_def)
qed

theorem getPagedData_clamps_currentPage_witness:
  "getPagedData (JSArray [10, 20, 30, 40, 50, 60, 70 :: int])
      \<lparr>currentPage = 9, pageSize = 5, totalItems = 0, totalPages = 0\<rparr>
     = (JSArray [60, 70], \<lparr>currentPage = 2, pageSize = 5, totalItems = 7, totalPages = 2\<rparr>)
   \<and> (1::int) \<le> 2 \<and> (2::int) = max 1 (min 9 2)"
proof -
  let ?pc = "\<lparr>currentPage = 9, pageSize = 5, totalItems = 0, totalPages = 0\<rparr>"
  let ?pc' = "\<lparr>currentPage = 2, pageSize = 5, totalItems = 7, totalPages = 2\<rparr>"
  have h1: "0 < pageSize ?pc" by simp
  have h2: "getPagedData (JSArray [10, 20, 30, 40, 50, 60, 70 :: int]) ?pc = (JSArray [60, 70], ?pc')"
    apply (simp add: getPagedData_array math_ceil_div_def)
    apply (simp add: array_slice_def)
    done
  from getPagedData_clamps_currentPage [OF h1 h2] h2 show ?thesis by simp
qed

text \<open>
  Claim C6: for every array and positive page size, \<^verbatim>\<open>getPagedData\<close> sets
  \<open>totalItems\<close> to the length of the collection and
  \<open>totalPages = ceil(totalItems / pageSize)\<close>, and returns the items at the indices
  \<open>[(currentPage - 1) * pageSize, currentPage * pageSize)\<close> that exist, for the
  current page it leaves in the state. For 23 items and page size 10 there are 3
  pages; page 1 holds the items at indices \<open>[0, 10)\<close> and page 3 the three items
  at \<open>[20, 23)\<close>.
\<close>

theorem getPagedData_page_count_and_slice:
  assumes "0 < pageSize pc" and "getPagedData (JSArray xs) pc = (page, pc')"
  shows "totalItems pc' = int (length xs)
     \<and> pageSize pc' = pageSize pc
     \<and> totalPages pc' = \<lceil>real_of_int (totalItems pc') / real_of_int (pageSize pc')\<rceil>
     \<and> page = JSArray (map ((!) xs)
          [nat ((currentPage pc' - 1) * pageSize pc') ..<
             min (nat (currentPage pc' * pageSize pc')) (length xs)])
     \<and> (length xs = 23 \<and> pageSize pc = 10 \<longrightarrow>
          totalPages pc' = 3
          \<and> (currentPage pc = 1 \<longrightarrow> page = JSArray (map ((!) xs) [0 ..< 10]))
          \<and> (currentPage pc = 3 \<longrightarrow>
                page = JSArray (map ((!) xs) [20 ..< 23]) \<and> length (elems page) = 3))"
proof -
  define n where "n = int (length xs)"
  define tp where "tp = math_ceil_div n (pageSize pc)"
  define cp where "cp = (let cp1 = (if currentPage pc > tp \<and> tp > 0 then tp else currentPage pc)
                         in if cp1 < 1 then 1 else cp1)"
  have pc': "pc' = pc\<lparr>totalItems := n, totalPages := tp, currentPage := cp\<rparr>"
    and pg: "page = JSArray (array_slice xs ((cp - 1) * pageSize pc) ((cp - 1) * pageSize pc + pageSize pc))"
    using assms(2) by (auto simp: getPagedData_array Let_def n_def tp_def cp_def)
  have cp1: "1 \<le> cp" by (simp add: cp_def Let_def)
  have s0: "0 \<le> (cp - 1) * pageSize pc" using cp1 assms(1) by simp
  have e0: "0 \<le> (cp - 1) * pageSize pc + pageSize pc" using s0 assms(1) by simp
  have e_eq: "(cp - 1) * pageSize pc + pageSize pc = cp * pageSize pc"
    by (simp add: algebra_simps)
  have slice: "page = JSArray (map ((!) xs)
          [nat ((cp - 1) * pageSize pc) ..< min (nat (cp * pageSize pc)) (length xs)])"
    using array_slice_nonneg [OF s0 e0, of xs] unfolding pg e_eq by (rule arg_cong)
  have A: "totalItems pc' = int (length xs)" by (simp add: pc' n_def)
  have B: "pageSize pc' = pageSize pc" by (simp add: pc')
  have C: "totalPages pc' = \<lceil>real_of_int (totalItems pc') / real_of_int (pageSize pc')\<rceil>"
    by (simp add: pc' tp_def math_ceil_div_ceiling)
  have D: "page = JSArray (map ((!) xs)
          [nat ((currentPage pc' - 1) * pageSize pc') ..<
             min (nat (currentPage pc' * pageSize pc')) (length xs)])"
    using slice by (simp add: pc')
  have E: "totalPages pc' = 3
          \<and> (currentPage pc = 1 \<longrightarrow> page = JSArray (map ((!) xs) [0 ..< 10]))
          \<and> (currentPage pc = 3 \<longrightarrow>
                page = JSArray (map ((!) xs) [20 ..< 23]) \<and> length (elems page) = 3)"
    if len: "length xs = 23" and ps: "pageSize pc = 10"
  proof -
    have tp3: "tp = 3" by (simp add: tp_def n_def len ps math_ceil_div_def)
    have p1: "page = JSArray (map ((!) xs) [0 ..< 10])" if "currentPage pc = 1"
    proof -
      have "cp = 1" using that by (simp add: cp_def tp3)
      then show ?thesis using slice by (simp add: ps len)
    qed
    have p3: "page = JSArray (map ((!) xs) [20 ..< 23])" if "currentPage pc = 3"
    proof -
      have "cp = 3" using that by (simp add: cp_def tp3)
      then show ?thesis using slice by (simp add: ps len)
    qed
    have "length (elems (JSArray (map ((!) xs) [20 ..< 23]))) = 3" by simp
    with p1 p3 tp3 show ?thesis by (simp add: pc')
  qed
  from A B C D E show ?thesis by blast
qed

theorem getPagedData_page_count_and_slice_witness:
  "getPagedData (JSArray [0, 1, 2, 3, 4, 5, 6, 7, 8, 9, 10, 11, 12, 13, 14, 15, 16, 17, 18, 19,
        20, 21, 22 :: int])
      \<lparr>currentPage = 3, pageSize = 10, totalItems = 0, totalPages = 0\<rparr>
     = (JSArray [20, 21, 22],
        \<lparr>currentPage = 3, pageSize = 10, totalItems = 23, totalPages = 3\<rparr>)
   \<and> (3 :: int) = \<lceil>real_of_int 23 / real_of_int 10\<rceil>
   \<and> length (elems (JSArray [20, 21, 22 :: int])) = 3"
proof -
  let ?xs = "[0, 1, 2, 3, 4, 5, 6, 7, 8, 9, 10, 11, 12, 13, 14, 15, 16, 17, 18, 19,
        20, 21, 22 :: int]"
  let ?pc = "\<lparr>currentPage = 3, pageSize = 10, totalItems = 0, totalPages = 0\<rparr>"
  let ?pc' = "\<lparr>currentPage = 3, pageSize = 10, totalItems = 23, totalPages = 3\<rparr>"
  have h1: "0 < pageSize ?pc" by simp
  have h2: "getPagedData (JSArray ?xs) ?pc = (JSArray [20, 21, 22], ?pc')"
    apply (simp add: getPagedData_array math_ceil_div_def)
    apply (simp add: array_slice_def)
    done
  have h3: "length ?xs = 23 \<and> pageSize ?pc = 10" by simp
  from getPagedData_page_count_and_slice [OF h1 h2] h3
  have "totalPages ?pc' = \<lceil>real_of_int (totalItems ?pc') / real_of_int (pageSize ?pc')\<rceil>"
    and "length (elems (JSArray [20, 21, 22 :: int])) = 3"
    by (blast, simp)
  with h2 show ?thesis by simp
qed

text \<open>
  Claim C7: \<^verbatim>\<open>goToPage(n)\<close> with \<open>n\<close> outside \<open>[1, totalPages]\<close> (such as 0 or
  \<open>totalPages + 1\<close>) returns the state unchanged and raises no page-change
  signal; otherwise it sets \<open>currentPage = n\<close> and raises the signal.
  \<^verbatim>\<open>changePageSize(size)\<close> with a size outside \<open>{5, 10, 20}\<close> returns the state
  unchanged; with a valid size it sets \<open>pageSize\<close> and resets \<open>currentPage\<close> to 1.
\<close>

theorem goToPage_changePageSize_guards:
  "(n < 1 \<or> totalPages pc < n \<longrightarrow> goToPage n pc = (pc, None))
   \<and> goToPage 0 pc = (pc, None)
   \<and> goToPage (totalPages pc + 1) pc = (pc, None)
   \<and> (1 \<le> n \<and> n \<le> totalPages pc \<longrightarrow>
        goToPage n pc = (pc\<lparr>currentPage := n\<rparr>, Some PageChange))
   \<and> (sz \<notin> {5, 10, 20} \<longrightarrow> changePageSize sz pc = (pc, None))
   \<and> (sz \<in> {5, 10, 20} \<longrightarrow>
        changePageSize sz pc = (pc\<lparr>pageSize := sz, currentPage := 1\<rparr>, Some PageSizeChange)
        \<and> pageSize (fst (changePageSize sz pc)) = sz
        \<and> currentPage (fst (changePageSize sz pc)) = 1)"
  by (auto simp: goToPage_def changePageSize_def validSizes_def)

theorem goToPage_changePageSize_guards_witness:
  "goToPage 4 \<lparr>currentPage = 2, pageSize = 10, totalItems = 23, totalPages = 3\<rparr>
     = (\<lparr>currentPage = 2, pageSize = 10, totalItems = 23, totalPages = 3\<rparr>, None)
   \<and> goToPage 3 \<lparr>currentPage = 2, pageSize = 10, totalItems = 23, totalPages = 3\<rparr>
     = (\<lparr>currentPage = 3, pageSize = 10, totalItems = 23, totalPages = 3\<rparr>, Some PageChange)
   \<and> changePageSize 7 \<lparr>currentPage = 2, pageSize = 10, totalItems = 23, totalPages = 3\<rparr>
     = (\<lparr>currentPage = 2, pageSize = 10, totalItems = 23, totalPages = 3\<rparr>, None)
   \<and> changePageSize 20 \<lparr>currentPage = 2, pageSize = 10, totalItems = 23, totalPages = 3\<rparr>
     = (\<lparr>currentPage = 1, pageSize = 20, totalItems = 23, totalPages = 3\<rparr>, Some PageSizeChange)"
  using goToPage_changePageSize_guards
          [of 4 "\<lparr>currentPage = 2, pageSize = 10, totalItems = 23, totalPages = 3\<rparr>" 7]
        goToPage_changePageSize_guards
          [of 3 "\<lparr>currentPage = 2, pageSize = 10, totalItems = 23, totalPages = 3\<rparr>" 20]
  by simp

section \<open>Sorting: permutation, order and stability\<close>

lemma mset_insert_sorted: "mset (insert_sorted cmp x ys) = add_mset x (mset ys)"
  by (induction ys) auto

lemma mset_array_sort: "mset (array_sort cmp xs) = mset xs"
  by (induction xs) (auto simp: array_sort_def mset_insert_sorted)

lemma array_sort_Cons: "array_sort cmp (x # xs) = insert_sorted cmp x (array_sort cmp xs)"
  by (simp add: array_sort_def)

lemma array_sort_Nil: "array_sort cmp [] = []"
  by (simp add: array_sort_def)

lemma length_array_sort: "length (array_sort cmp xs) = length xs"
  using mset_array_sort [of cmp xs] by (metis size_mset)

lemma set_insert_sorted: "set (insert_sorted cmp x ys) = insert x (set ys)"
  using mset_insert_sorted [of cmp x ys] by (metis set_mset_mset set_mset_add_mset_insert)

lemma consistent_comparatorD:
  assumes "consistent_comparator cmp"
  shows "cmp a a = 0"
    and "cmp a b < 0 \<longleftrightarrow> 0 < cmp b a"
    and "cmp a b \<le> 0 \<Longrightarrow> cmp b c \<le> 0 \<Longrightarrow> cmp a c \<le> 0"
  using assms unfolding consistent_comparator_def by blast+

lemma consistent_comparator_flip:
  assumes "consistent_comparator cmp" and "0 < cmp a b"
  shows "cmp b a \<le> 0"
  using consistent_comparatorD(2) [OF assms(1), of b a] assms(2) by simp


lemma sorted_wrt_insert_sorted:
  assumes cc: "consistent_comparator cmp"
  shows "sorted_wrt (\<lambda>a b. cmp a b \<le> 0) ys
         \<Longrightarrow> sorted_wrt (\<lambda>a b. cmp a b \<le> 0) (insert_sorted cmp x ys)"
proof (induction ys)
  case Nil
  show ?case by simp
next
  case (Cons y ys)
  show ?case
  proof (cases "cmp x y \<le> 0")
    case True
    have "cmp x z \<le> 0" if "z \<in> set ys" for z
      using consistent_comparatorD(3) [OF cc True] Cons.prems that by simp
    with True Cons.prems show ?thesis by simp
  next
    case False
    then have "cmp y x \<le> 0" using consistent_comparator_flip [OF cc] by simp
    with False Cons show ?thesis by (auto simp: set_insert_sorted)
  qed
qed

lemma sorted_wrt_array_sort:
  assumes "consistent_comparator cmp"
  shows "sorted_wrt (\<lambda>a b. cmp a b \<le> 0) (array_sort cmp xs)"
  by (induction xs) (simp_all add: array_sort_Nil array_sort_Cons sorted_wrt_insert_sorted [OF assms])

lemma filter_insert_sorted:
  assumes "\<forall>y \<in> set ys. P x \<and> P y \<longrightarrow> cmp x y \<le> 0"
  shows "filter P (insert_sorted cmp x ys) = filter P (x # ys)"
  using assms by (induction ys) auto

lemma array_sort_stable:
  assumes "\<forall>a b. P a \<and> P b \<longrightarrow> cmp a b \<le> 0"
  shows "filter P (array_sort cmp xs) = filter P xs"
proof (induction xs)
  case Nil
  show ?case by (simp add: array_sort_Nil)
next
  case (Cons x xs)
  have "filter P (insert_sorted cmp x (array_sort cmp xs)) = filter P (x # array_sort cmp xs)"
    by (rule filter_insert_sorted) (use assms in blast)
  with Cons.IH show ?case by (simp add: array_sort_Cons)
qed


lemma consistent_price_compare: "consistent_comparator (price_compare d)"
  by (cases d) (auto simp: consistent_comparator_def price_compare_def)




lemma sortByPrice_array: "sortByPrice (JSArray xs) d = JSArray (array_sort (price_compare d) xs)"
  by (simp add: sortByPrice_def)


text \<open>
  Claim C4: for every collection and direction, \<^verbatim>\<open>sortByPrice\<close> returns an array of
  the same length that is a permutation of the input (no item is dropped), whose
  prices are non-decreasing for \<open>asc\<close> and non-increasing for \<open>desc\<close>, and in which
  the items of any one price keep their original order. The price of an item is
  its \<^verbatim>\<open>price\<close> field when it has one and 0 when the field is absent. At the level of references the result is a fresh array: the
  argument's array and every other array of the heap are unchanged.
\<close>

theorem sortByPrice_sorted_stable_permutation:
  "isArray (sortByPrice (JSArray xs) d)
   \<and> length (elems (sortByPrice (JSArray xs) d)) = length xs
   \<and> mset (elems (sortByPrice (JSArray xs) d)) = mset xs
   \<and> (d = Asc \<longrightarrow> sorted_wrt (\<lambda>u v. u \<le> v) (map price_or_0 (elems (sortByPrice (JSArray xs) d))))
   \<and> (d = Desc \<longrightarrow> sorted_wrt (\<lambda>u v. u \<ge> v) (map price_or_0 (elems (sortByPrice (JSArray xs) d))))
   \<and> (\<forall>v. filter (\<lambda>p. price_or_0 p = v) (elems (sortByPrice (JSArray xs) d))
            = filter (\<lambda>p. price_or_0 p = v) xs)
   \<and> (price p = None \<longrightarrow> price_or_0 p = 0)
   \<and> (price p = Some w \<longrightarrow> price_or_0 p = w)
   \<and> (a < length h \<and> h ! a = xs \<longrightarrow>
        fst (sortByPrice_ref h a d) \<noteq> a
        \<and> snd (sortByPrice_ref h a d) ! a = xs
        \<and> take (length h) (snd (sortByPrice_ref h a d)) = h
        \<and> JSArray (snd (sortByPrice_ref h a d) ! fst (sortByPrice_ref h a d))
            = sortByPrice (JSArray xs) d)"
proof -
  let ?ys = "array_sort (price_compare d) xs"
  have srt: "sorted_wrt (\<lambda>a b. price_compare d a b \<le> 0) ?ys"
    by (rule sorted_wrt_array_sort [OF consistent_price_compare])
  have asc: "sorted_wrt (\<lambda>u v. u \<le> v) (map price_or_0 ?ys)" if "d = Asc"
    using srt that by (simp add: sorted_wrt_map price_compare_def)
  have desc: "sorted_wrt (\<lambda>u v. u \<ge> v) (map price_or_0 ?ys)" if "d = Desc"
    using srt that by (simp add: sorted_wrt_map price_compare_def)
  have stable: "filter (\<lambda>p. price_or_0 p = v) ?ys = filter (\<lambda>p. price_or_0 p = v) xs" for v
    by (rule array_sort_stable) (cases d; simp add: price_compare_def)
  have none: "price p = None \<longrightarrow> price_or_0 p = 0"
    by (simp add: price_or_0_def)
  have some: "price p = Some w \<longrightarrow> price_or_0 p = w"
    by (simp add: price_or_0_def)
  have ref: "fst (sortByPrice_ref h a d) \<noteq> a
        \<and> snd (sortByPrice_ref h a d) ! a = xs
        \<and> take (length h) (snd (sortByPrice_ref h a d)) = h
        \<and> JSArray (snd (sortByPrice_ref h a d) ! fst (sortByPrice_ref h a d))
            = sortByPrice (JSArray xs) d"
    if "a < length h" and "h ! a = xs"
    using that
    by (simp add: sortByPrice_ref_def spread_copy_def sort_in_place_def sortByPrice_array
        nth_append)
  show ?thesis
    unfolding sortByPrice_array
    using asc desc stable none some ref
    by (simp add: length_array_sort mset_array_sort sortByPrice_array)
qed

lemma sortByPrice_example_asc:
  "sortByPrice (JSArray [shirt_a, unpriced, shirt_b, untitled, cafe_capital]) Asc
     = JSArray [unpriced, cafe_capital, untitled, shirt_a, shirt_b]"
  by (simp add: sortByPrice_def array_sort_def price_compare_def price_or_0_def example_products)

lemma sortByPrice_example_desc:
  "sortByPrice (JSArray [shirt_a, unpriced, shirt_b, untitled, cafe_capital]) Desc
     = JSArray [shirt_a, shirt_b, untitled, cafe_capital, unpriced]"
  by (simp add: sortByPrice_def array_sort_def price_compare_def price_or_0_def example_products)

theorem sortByPrice_sorted_stable_permutation_witness:
  "sortByPrice (JSArray [shirt_a, unpriced, shirt_b, untitled, cafe_capital]) Desc
     = JSArray [shirt_a, shirt_b, untitled, cafe_capital, unpriced]
   \<and> sorted_wrt (\<lambda>u v. u \<ge> v)
        (map price_or_0 [shirt_a, shirt_b, untitled, cafe_capital, unpriced])
   \<and> map price_or_0 [shirt_a, shirt_b, untitled, cafe_capital, unpriced]
       = [30, 30, 10, 5 / 2, 0]
   \<and> filter (\<lambda>p. price_or_0 p = 30) [shirt_a, shirt_b, untitled, cafe_capital, unpriced]
       = filter (\<lambda>p. price_or_0 p = 30) [shirt_a, unpriced, shirt_b, untitled, cafe_capital]
   \<and> price_or_0 unpriced = 0
   \<and> price_or_0 cafe_capital = 5 / 2
   \<and> sortByPrice_ref [[untitled], [shirt_a, unpriced, shirt_b, untitled, cafe_capital]] 1 Desc
       = (2, [[untitled], [shirt_a, unpriced, shirt_b, untitled, cafe_capital],
              [shirt_a, shirt_b, untitled, cafe_capital, unpriced]])"
proof -
  let ?xs = "[shirt_a, unpriced, shirt_b, untitled, cafe_capital]"
  let ?ys = "[shirt_a, shirt_b, untitled, cafe_capital, unpriced]"
  let ?h = "[[untitled], ?xs]"
  note inst1 = sortByPrice_sorted_stable_permutation
                 [where xs = ?xs and d = Desc and p = unpriced and w = 0 and a = 1 and h = ?h]
  note inst2 = sortByPrice_sorted_stable_permutation
                 [where xs = ?xs and d = Desc and p = cafe_capital and w = "5 / 2"
                    and a = 1 and h = ?h]
  have out: "elems (sortByPrice (JSArray ?xs) Desc) = ?ys"
    by (simp add: sortByPrice_example_desc)
  have h: "(1::nat) < length ?h \<and> ?h ! 1 = ?xs" by simp
  have p1: "price unpriced = None" by (simp add: unpriced_def)
  have p2: "price cafe_capital = Some (5 / 2)" by (simp add: cafe_capital_def)
  have keys: "map price_or_0 ?ys = [30, 30, 10, 5 / 2, 0]"
    by (simp add: price_or_0_def example_products)
  have ref: "sortByPrice_ref ?h 1 Desc = (2, ?h @ [?ys])"
    using sortByPrice_example_desc
    by (simp add: sortByPrice_ref_def spread_copy_def sort_in_place_def sortByPrice_def)
  from inst1 h p1
  have "sorted_wrt (\<lambda>u v. u \<ge> v) (map price_or_0 (elems (sortByPrice (JSArray ?xs) Desc)))"
    and "filter (\<lambda>p. price_or_0 p = 30) (elems (sortByPrice (JSArray ?xs) Desc))
            = filter (\<lambda>p. price_or_0 p = 30) ?xs"
    and "price_or_0 unpriced = 0"
    by blast+
  moreover from inst2 p2 have "price_or_0 cafe_capital = 5 / 2"
    by blast
  ultimately show ?thesis
    using out ref keys sortByPrice_example_desc by simp
qed


lemma sortByName_example_asc:
  "sortByName example_host (JSArray [shirt_a, unpriced, shirt_b, untitled]) Asc
     = JSArray [untitled, unpriced, shirt_a, shirt_b]"
  by code_simp



subsection \<open>Letter case\<close>










section \<open>Filtering and malformed input\<close>












text \<open>
  Claim C8, as stated, fails for \<^verbatim>\<open>applySorting\<close>: with no sort field selected it
  returns its argument as it is, so an absent collection comes back absent, not
  as an empty array.
\<close>

theorem C8_counterexample:
  "applySorting example_host \<lparr>field = None, direction = Asc\<rparr> (JSUndefined :: product jsval)
     \<noteq> JSArray []"
  by (simp add: applySorting_def)

text \<open>
  Claim C8, amended: given a value that is not an array (absent or of another
  type), \<^verbatim>\<open>filter\<close>, \<^verbatim>\<open>sortByPrice\<close>, \<^verbatim>\<open>sortByName\<close> and \<^verbatim>\<open>getPagedData\<close> return an
  empty array (and \<^verbatim>\<open>getPagedData\<close> leaves the pagination state as it was);
  \<^verbatim>\<open>applySorting\<close> returns an empty array when a sort field is selected, and
  returns its argument unchanged when none is.
\<close>

theorem non_array_input_gives_empty_array:
  assumes "\<not> isArray c"
  shows "filter_products hst st c term_arg = JSArray []
   \<and> sortByPrice c d = JSArray []
   \<and> sortByName hst c d = JSArray []
   \<and> getPagedData c pc = (JSArray [], pc)
   \<and> (field cs \<noteq> None \<longrightarrow> applySorting hst cs c = JSArray [])
   \<and> (field cs = None \<longrightarrow> applySorting hst cs c = c)"
  using assms
  by (auto simp: filter_products_def sortByPrice_def sortByName_def getPagedData_def
      applySorting_def Let_def split: option.splits sort_field.splits)

theorem non_array_input_gives_empty_array_witness:
  "\<not> isArray (JSUndefined :: product jsval)
   \<and> filter_products example_host (code_units ''lamp'') JSUndefined
        (TermString (code_units ''hIr'')) = JSArray []
   \<and> sortByPrice JSUndefined Asc = JSArray []
   \<and> sortByName example_host JSUndefined Desc = JSArray []
   \<and> getPagedData (JSUndefined :: product jsval) new_PaginationController
       = (JSArray [], new_PaginationController)
   \<and> applySorting example_host \<lparr>field = Some Price, direction = Asc\<rparr> JSUndefined = JSArray []
   \<and> applySorting example_host \<lparr>field = None, direction = Asc\<rparr>
        (JSUndefined :: product jsval) = JSUndefined"
proof -
  have h: "\<not> isArray (JSUndefined :: product jsval)" by simp
  from non_array_input_gives_empty_array
         [OF h, of example_host "code_units ''lamp''" "TermString (code_units ''hIr'')" Asc
            new_PaginationController "\<lparr>field = Some Price, direction = Asc\<rparr>"]
       non_array_input_gives_empty_array
         [OF h, of example_host "code_units ''lamp''" "TermString (code_units ''hIr'')" Desc
            new_PaginationController "\<lparr>field = None, direction = Asc\<rparr>"]
  show ?thesis by simp
qed

section \<open>The dashboard: full recompute and slice-only updates\<close>

lemma updateDisplay_fields:
  "products (updateDisplay s) = products s"
  "searchTerm (updateDisplay s) = searchTerm s"
  "currentSort (updateDisplay s) = currentSort s"
  "filteredProducts (updateDisplay s) = filteredProducts s"
  by (simp_all add: updateDisplay_def split: prod.splits)

lemma applyFilters_unfold:
  "applyFilters hst s = updateDisplay (s\<lparr>filteredProducts :=
      applySorting hst (currentSort s)
        (if searchTerm s \<noteq> []
         then filter_products hst (searchTerm s) (JSArray (products s)) (TermString (searchTerm s))
         else JSArray (products s))\<rparr>)"
  by (simp add: applyFilters_def Let_def)

lemma applyFilters_fields:
  "products (applyFilters hst s) = products s"
  "searchTerm (applyFilters hst s) = searchTerm s"
  "currentSort (applyFilters hst s) = currentSort s"
  by (simp_all add: applyFilters_unfold updateDisplay_fields)

lemma filteredProducts_applyFilters:
  "filteredProducts (applyFilters hst s) =
      applySorting hst (currentSort s)
        (if searchTerm s \<noteq> []
         then filter_products hst (searchTerm s) (JSArray (products s)) (TermString (searchTerm s))
         else JSArray (products s))"
  by (simp add: applyFilters_unfold updateDisplay_fields)

lemma up_to_date_applyFilters: "up_to_date hst (applyFilters hst s)"
  by (simp add: up_to_date_def filteredProducts_applyFilters applyFilters_fields)

lemma up_to_date_updateDisplay: "up_to_date hst s \<Longrightarrow> up_to_date hst (updateDisplay s)"
  by (simp add: up_to_date_def filteredProducts_applyFilters updateDisplay_fields)

lemma up_to_date_pagination:
  "up_to_date hst s \<Longrightarrow> up_to_date hst (s\<lparr>paginationController := pc\<rparr>)"
  by (simp add: up_to_date_def filteredProducts_applyFilters)

lemma up_to_date_new: "up_to_date hst new_DashboardController"
  by (simp add: up_to_date_def filteredProducts_applyFilters new_DashboardController_def
      new_SortController_def applySorting_def)

lemma up_to_date_dispatch:
  "up_to_date hst s \<Longrightarrow> up_to_date hst (dispatch hst sg s)"
  by (cases "(hst, sg, s)" rule: dispatch.cases)
     (simp_all add: up_to_date_applyFilters up_to_date_updateDisplay)

lemma up_to_date_handle:
  assumes "up_to_date hst s"
  shows "up_to_date hst (handle hst e s)"
proof (cases e)
  case (SearchInput v)
  then show ?thesis by (simp add: up_to_date_applyFilters)
next
  case SortPriceClick
  then show ?thesis by (simp add: toggleSort_def up_to_date_applyFilters)
next
  case SortNameClick
  then show ?thesis by (simp add: toggleSort_def up_to_date_applyFilters)
next
  case (PageSizeSelect n)
  then show ?thesis
    using assms by (simp add: changePageSize_def up_to_date_applyFilters)
next
  case (PageButtonClick n)
  then show ?thesis
    using assms
    by (simp add: goToPage_def up_to_date_updateDisplay up_to_date_pagination)
next
  case PrevClick
  then show ?thesis
    using assms
    by (simp add: goToPage_def up_to_date_updateDisplay up_to_date_pagination)
next
  case NextClick
  then show ?thesis
    using assms
    by (simp add: goToPage_def up_to_date_updateDisplay up_to_date_pagination)
qed

lemma reachable_up_to_date: "reachable hst s \<Longrightarrow> up_to_date hst s"
proof (induction rule: reachable.induct)
  case constructed
  show ?case by (rule up_to_date_new)
next
  case (loaded s ps)
  show ?case by (simp add: init_loaded_def up_to_date_applyFilters)
next
  case (listened s e)
  then show ?case by (simp add: up_to_date_handle)
qed

lemma up_to_date_slice_only:
  assumes "up_to_date hst s"
  shows "updateDisplay s = applyFilters hst s"
proof -
  have "applyFilters hst s = updateDisplay (s\<lparr>filteredProducts := filteredProducts (applyFilters hst s)\<rparr>)"
    by (simp add: applyFilters_unfold updateDisplay_fields)
  also have "\<dots> = updateDisplay (s\<lparr>filteredProducts := filteredProducts s\<rparr>)"
    using assms by (simp add: up_to_date_def)
  finally show ?thesis by simp
qed

lemma dispatch_currentSort: "currentSort (dispatch hst sg s) = currentSort s"
  by (cases "(hst, sg, s)" rule: dispatch.cases)
     (simp_all add: applyFilters_fields updateDisplay_fields)

lemma toggleSort_field: "field (fst (toggleSort f cs)) = Some f"
  by (simp add: toggleSort_def)

lemma fold_toggleSort_field:
  "fs \<noteq> [] \<Longrightarrow> field (fold (\<lambda>f cs. fst (toggleSort f cs)) fs cs) = Some (last fs)"
proof (induction fs arbitrary: cs)
  case Nil
  then show ?case by simp
next
  case (Cons f fs)
  show ?case
  proof (cases "fs = []")
    case True
    then show ?thesis by (simp add: toggleSort_field)
  next
    case False
    with Cons.IH show ?thesis by simp
  qed
qed

lemma reachable_example_session: "reachable example_host example_session"
  unfolding example_session_def by (intro reachable.intros)

lemma example_session_pagination:
  "paginationController example_session
     = \<lparr>currentPage = 1, pageSize = 5, totalItems = 6, totalPages = 2\<rparr>"
  by code_simp

lemma example_session_page_2:
  "currentPageProducts (handle example_host (PageButtonClick 2) example_session)
     = JSArray [shirt_b]"
  by code_simp

lemma stale_session_pagination:
  "paginationController stale_session
     = \<lparr>currentPage = 1, pageSize = 5, totalItems = 6, totalPages = 2\<rparr>"
  by code_simp

lemma stale_session_page_2_slice_only:
  "currentPageProducts
     (updateDisplay (stale_session\<lparr>paginationController :=
        (paginationController stale_session)\<lparr>currentPage := 2\<rparr>\<rparr>))
     = JSArray [shirt_b]"
  by code_simp

lemma stale_session_page_2_full_chain:
  "currentPageProducts
     (applyFilters example_host (stale_session\<lparr>paginationController :=
        (paginationController stale_session)\<lparr>currentPage := 2\<rparr>\<rparr>))
     = JSArray [unpriced, unpriced]"
  by code_simp

lemma stale_session_size_10_full_chain:
  "currentPageProducts
     (applyFilters example_host (stale_session\<lparr>paginationController :=
        (paginationController stale_session)\<lparr>pageSize := 10, currentPage := 1\<rparr>\<rparr>))
     = JSArray [unpriced, unpriced]"
  by code_simp

lemma stale_session_size_10_slice_only:
  "currentPageProducts
     (updateDisplay (stale_session\<lparr>paginationController :=
        (paginationController stale_session)\<lparr>pageSize := 10, currentPage := 1\<rparr>\<rparr>))
     = JSArray [unpriced, unpriced, untitled, shirt_a, shirt_b, shirt_b]"
  by code_simp

lemma trim_example: "trim (code_units ''zz'') = code_units ''zz''"
  by (simp add: trim_def is_space_def code_units_def)

lemma trim_example_spaces:
  "trim ([160, 32] @ code_units ''z z'' @ [9, 12288, 65279]) = code_units ''z z''"
  by (simp add: trim_def is_space_def code_units_def)

text \<open>
  Claim C1: in every state of a session (whatever the raw products, the search
  term and the sort state are), changing the page number and running
  \<^verbatim>\<open>updateDisplay\<close> alone gives the same state, and so the same visible page, as
  running the full chain \<^verbatim>\<open>applyFilters\<close>. In every state whatsoever, a
  page-number change (a numbered button, previous or next) runs
  \<^verbatim>\<open>updateDisplay\<close> only, and nothing when the number is out of range; a
  search-term change, a sort toggle and a page-size change each run
  \<^verbatim>\<open>applyFilters\<close>.
\<close>

theorem page_change_slice_only_equals_full_chain:
  "(reachable hst s \<longrightarrow>
      updateDisplay (s\<lparr>paginationController := (paginationController s)\<lparr>currentPage := n\<rparr>\<rparr>)
        = applyFilters hst
            (s\<lparr>paginationController := (paginationController s)\<lparr>currentPage := n\<rparr>\<rparr>))
   \<and> handle hst (PageButtonClick n) s
       = (if n < 1 \<or> totalPages (paginationController s) < n then s
          else updateDisplay
                 (s\<lparr>paginationController := (paginationController s)\<lparr>currentPage := n\<rparr>\<rparr>))
   \<and> handle hst PrevClick s
       = (if 1 < currentPage (paginationController s)
             \<and> currentPage (paginationController s) - 1 \<le> totalPages (paginationController s)
          then updateDisplay
                 (s\<lparr>paginationController := (paginationController s)
                      \<lparr>currentPage := currentPage (paginationController s) - 1\<rparr>\<rparr>)
          else s)
   \<and> handle hst NextClick s
       = (if currentPage (paginationController s) < totalPages (paginationController s)
             \<and> 0 \<le> currentPage (paginationController s)
          then updateDisplay
                 (s\<lparr>paginationController := (paginationController s)
                      \<lparr>currentPage := currentPage (paginationController s) + 1\<rparr>\<rparr>)
          else s)
   \<and> handle hst (SearchInput v) s = applyFilters hst (s\<lparr>searchTerm := trim v\<rparr>)
   \<and> handle hst SortPriceClick s
       = applyFilters hst (s\<lparr>currentSort := fst (toggleSort Price (currentSort s))\<rparr>)
   \<and> handle hst SortNameClick s
       = applyFilters hst (s\<lparr>currentSort := fst (toggleSort Title (currentSort s))\<rparr>)
   \<and> handle hst (PageSizeSelect z) s
       = (if z \<in> {5, 10, 20}
          then applyFilters hst
                 (s\<lparr>paginationController :=
                      (paginationController s)\<lparr>pageSize := z, currentPage := 1\<rparr>\<rparr>)
          else s)"
proof -
  have slice: "updateDisplay
        (s\<lparr>paginationController := (paginationController s)\<lparr>currentPage := n\<rparr>\<rparr>)
       = applyFilters hst
        (s\<lparr>paginationController := (paginationController s)\<lparr>currentPage := n\<rparr>\<rparr>)"
    if "reachable hst s"
  proof -
    have "up_to_date hst s" using that by (rule reachable_up_to_date)
    then have "up_to_date hst
        (s\<lparr>paginationController := (paginationController s)\<lparr>currentPage := n\<rparr>\<rparr>)"
      by (rule up_to_date_pagination)
    then show ?thesis by (rule up_to_date_slice_only)
  qed
  have page: "handle hst (PageButtonClick n) s
       = (if n < 1 \<or> totalPages (paginationController s) < n then s
          else updateDisplay
                 (s\<lparr>paginationController := (paginationController s)\<lparr>currentPage := n\<rparr>\<rparr>))"
    by (simp add: goToPage_def)
  have prev: "handle hst PrevClick s
       = (if 1 < currentPage (paginationController s)
             \<and> currentPage (paginationController s) - 1 \<le> totalPages (paginationController s)
          then updateDisplay
                 (s\<lparr>paginationController := (paginationController s)
                      \<lparr>currentPage := currentPage (paginationController s) - 1\<rparr>\<rparr>)
          else s)"
    by (simp add: goToPage_def)
  have nxt: "handle hst NextClick s
       = (if currentPage (paginationController s) < totalPages (paginationController s)
             \<and> 0 \<le> currentPage (paginationController s)
          then updateDisplay
                 (s\<lparr>paginationController := (paginationController s)
                      \<lparr>currentPage := currentPage (paginationController s) + 1\<rparr>\<rparr>)
          else s)"
    by (simp add: goToPage_def)
  have search: "handle hst (SearchInput v) s = applyFilters hst (s\<lparr>searchTerm := trim v\<rparr>)"
    by simp
  have sortp: "handle hst SortPriceClick s
       = applyFilters hst (s\<lparr>currentSort := fst (toggleSort Price (currentSort s))\<rparr>)"
    by (simp add: toggleSort_def)
  have sortn: "handle hst SortNameClick s
       = applyFilters hst (s\<lparr>currentSort := fst (toggleSort Title (currentSort s))\<rparr>)"
    by (simp add: toggleSort_def)
  have size: "handle hst (PageSizeSelect z) s
       = (if z \<in> {5, 10, 20}
          then applyFilters hst
                 (s\<lparr>paginationController :=
                      (paginationController s)\<lparr>pageSize := z, currentPage := 1\<rparr>\<rparr>)
          else s)"
    by (simp add: changePageSize_def validSizes_def)
  from slice page prev nxt search sortp sortn size show ?thesis by blast
qed

theorem page_change_slice_only_equals_full_chain_witness:
  "reachable example_host example_session
   \<and> handle example_host (PageButtonClick 2) example_session
       = applyFilters example_host
           (example_session\<lparr>paginationController :=
              (paginationController example_session)\<lparr>currentPage := 2\<rparr>\<rparr>)
   \<and> currentPageProducts (applyFilters example_host
           (example_session\<lparr>paginationController :=
              (paginationController example_session)\<lparr>currentPage := 2\<rparr>\<rparr>))
       = JSArray [shirt_b]
   \<and> currentPageProducts (handle example_host (PageButtonClick 2) stale_session)
       = JSArray [shirt_b]
   \<and> currentPageProducts
        (applyFilters example_host (stale_session\<lparr>paginationController :=
           (paginationController stale_session)\<lparr>currentPage := 2\<rparr>\<rparr>))
       = JSArray [unpriced, unpriced]
   \<and> currentPageProducts (handle example_host (PageSizeSelect 10) stale_session)
       = JSArray [unpriced, unpriced]
   \<and> currentPageProducts
        (updateDisplay (stale_session\<lparr>paginationController :=
           (paginationController stale_session)\<lparr>pageSize := 10, currentPage := 1\<rparr>\<rparr>))
       = JSArray [unpriced, unpriced, untitled, shirt_a, shirt_b, shirt_b]
   \<and> searchTerm (handle example_host
          (SearchInput ([160, 32] @ code_units ''z z'' @ [9, 12288, 65279])) example_session)
       = code_units ''z z''"
proof -
  note inst = page_change_slice_only_equals_full_chain
                [where hst = example_host and s = example_session and n = 2
                   and v = "[160, 32] @ code_units ''z z'' @ [9, 12288, 65279]" and z = 10]
  note stale = page_change_slice_only_equals_full_chain
                [where hst = example_host and s = stale_session and n = 2 and v = "[]"
                   and z = 10]
  have in_range: "\<not> ((2::int) < 1 \<or> totalPages (paginationController example_session) < 2)"
    by (simp add: example_session_pagination)
  have in_range': "\<not> ((2::int) < 1 \<or> totalPages (paginationController stale_session) < 2)"
    by (simp add: stale_session_pagination)
  have valid: "(10::int) \<in> {5, 10, 20}" by simp
  have slice: "updateDisplay (example_session\<lparr>paginationController :=
              (paginationController example_session)\<lparr>currentPage := 2\<rparr>\<rparr>)
       = applyFilters example_host (example_session\<lparr>paginationController :=
              (paginationController example_session)\<lparr>currentPage := 2\<rparr>\<rparr>)"
    by (rule inst [THEN conjunct1, THEN mp, OF reachable_example_session])
  have "handle example_host (PageButtonClick 2) example_session
       = (if (2::int) < 1 \<or> totalPages (paginationController example_session) < 2
          then example_session
          else updateDisplay (example_session\<lparr>paginationController :=
              (paginationController example_session)\<lparr>currentPage := 2\<rparr>\<rparr>))"
    by (rule inst [THEN conjunct2, THEN conjunct1])
  with in_range slice
  have eq: "handle example_host (PageButtonClick 2) example_session
       = applyFilters example_host
           (example_session\<lparr>paginationController :=
              (paginationController example_session)\<lparr>currentPage := 2\<rparr>\<rparr>)"
    by (simp only: if_False)
  have "handle example_host (PageButtonClick 2) stale_session
       = (if (2::int) < 1 \<or> totalPages (paginationController stale_session) < 2
          then stale_session
          else updateDisplay (stale_session\<lparr>paginationController :=
              (paginationController stale_session)\<lparr>currentPage := 2\<rparr>\<rparr>))"
    by (rule stale [THEN conjunct2, THEN conjunct1])
  with in_range'
  have page: "handle example_host (PageButtonClick 2) stale_session
       = updateDisplay (stale_session\<lparr>paginationController :=
           (paginationController stale_session)\<lparr>currentPage := 2\<rparr>\<rparr>)"
    by (simp only: if_False)
  have "handle example_host (PageSizeSelect 10) stale_session
       = (if (10::int) \<in> {5, 10, 20}
          then applyFilters example_host (stale_session\<lparr>paginationController :=
             (paginationController stale_session)\<lparr>pageSize := 10, currentPage := 1\<rparr>\<rparr>)
          else stale_session)"
    by (rule stale [THEN conjunct2, THEN conjunct2, THEN conjunct2, THEN conjunct2,
          THEN conjunct2, THEN conjunct2, THEN conjunct2])
  with valid
  have size: "handle example_host (PageSizeSelect 10) stale_session
       = applyFilters example_host (stale_session\<lparr>paginationController :=
           (paginationController stale_session)\<lparr>pageSize := 10, currentPage := 1\<rparr>\<rparr>)"
    by (simp only: if_True)
  have c3: "currentPageProducts (applyFilters example_host
           (example_session\<lparr>paginationController :=
              (paginationController example_session)\<lparr>currentPage := 2\<rparr>\<rparr>))
       = JSArray [shirt_b]"
    using example_session_page_2 by (simp only: eq)
  have c4: "currentPageProducts (handle example_host (PageButtonClick 2) stale_session)
       = JSArray [shirt_b]"
    by (simp only: page stale_session_page_2_slice_only)
  have c6: "currentPageProducts (handle example_host (PageSizeSelect 10) stale_session)
       = JSArray [unpriced, unpriced]"
    by (simp only: size stale_session_size_10_full_chain)
  have "handle example_host
          (SearchInput ([160, 32] @ code_units ''z z'' @ [9, 12288, 65279])) example_session
       = applyFilters example_host (example_session
           \<lparr>searchTerm := trim ([160, 32] @ code_units ''z z'' @ [9, 12288, 65279])\<rparr>)"
    by (rule inst [THEN conjunct2, THEN conjunct2, THEN conjunct2, THEN conjunct2,
          THEN conjunct1])
  moreover have "searchTerm (applyFilters example_host
          (example_session\<lparr>searchTerm := code_units ''z z''\<rparr>)) = code_units ''z z''"
    by (simp add: applyFilters_fields)
  ultimately have c8: "searchTerm (handle example_host
          (SearchInput ([160, 32] @ code_units ''z z'' @ [9, 12288, 65279])) example_session)
       = code_units ''z z''"
    by (simp only: trim_example_spaces)
  show ?thesis
    by (intro conjI reachable_example_session eq c3 c4 stale_session_page_2_full_chain c6
        stale_session_size_10_slice_only c8)
qed

text \<open>
  The state of the counterexample to claim C2 occurs in a session: from the
  example session, going to page 2 and then searching for a term that matches
  nothing leaves the current page at 2 with no pages.
\<close>

lemma empty_search_keeps_current_page:
  "reachable example_host
     (handle example_host (SearchInput (code_units ''zz''))
        (handle example_host (PageButtonClick 2) example_session))
   \<and> paginationController
        (handle example_host (SearchInput (code_units ''zz''))
           (handle example_host (PageButtonClick 2) example_session))
       = \<lparr>currentPage = 2, pageSize = 5, totalItems = 0, totalPages = 0\<rparr>"
proof -
  have "paginationController
        (applyFilters example_host
           ((handle example_host (PageButtonClick 2) example_session)
              \<lparr>searchTerm := code_units ''zz''\<rparr>))
       = \<lparr>currentPage = 2, pageSize = 5, totalItems = 0, totalPages = 0\<rparr>"
    by code_simp
  then have "paginationController
        (handle example_host (SearchInput (code_units ''zz''))
           (handle example_host (PageButtonClick 2) example_session))
       = \<lparr>currentPage = 2, pageSize = 5, totalItems = 0, totalPages = 0\<rparr>"
    by (simp only: handle.simps(1) dispatch.simps(2) trim_example)
  moreover have "reachable example_host
     (handle example_host (SearchInput (code_units ''zz''))
        (handle example_host (PageButtonClick 2) example_session))"
    by (intro reachable.listened reachable_example_session)
  ultimately show ?thesis by simp
qed

lemma handle_currentSort:
  "currentSort (handle hst e s) =
     (case e of
        SortPriceClick \<Rightarrow> fst (toggleSort Price (currentSort s))
      | SortNameClick \<Rightarrow> fst (toggleSort Title (currentSort s))
      | _ \<Rightarrow> currentSort s)"
  by (cases e)
     (simp_all add: dispatch_currentSort applyFilters_fields updateDisplay_fields
        split: prod.splits)

text \<open>
  Claim C10: \<^verbatim>\<open>toggleSort\<close> always leaves the field it was called with, so after
  one or more calls the field is \<open>price\<close> or \<open>title\<close> (that of the last call), never
  none. No listener and no load takes a selected field back to none; only
  \<^verbatim>\<open>clearSort\<close> does, and no listener calls it.
\<close>

theorem toggleSort_never_clears_field:
  "field (fst (toggleSort f cs)) = Some f
   \<and> (fs \<noteq> [] \<longrightarrow>
        field (fold (\<lambda>f cs. fst (toggleSort f cs)) fs cs) = Some (last fs)
        \<and> field (fold (\<lambda>f cs. fst (toggleSort f cs)) fs cs) \<in> {Some Price, Some Title})
   \<and> (field (currentSort s) \<noteq> None \<longrightarrow> field (currentSort (handle hst e s)) \<noteq> None)
   \<and> (field (currentSort s) \<noteq> None \<longrightarrow> field (currentSort (init_loaded hst ps s)) \<noteq> None)
   \<and> field (clearSort cs) = None"
proof -
  have last_cases: "Some (last fs) \<in> {Some Price, Some Title}"
    by (cases "last fs") simp_all
  have ev: "field (currentSort (handle hst e s)) \<noteq> None" if "field (currentSort s) \<noteq> None"
    using that unfolding handle_currentSort
    by (cases e) (simp_all add: toggleSort_field)
  have ld: "field (currentSort (init_loaded hst ps s)) \<noteq> None" if "field (currentSort s) \<noteq> None"
    using that by (simp add: init_loaded_def applyFilters_fields)
  have cl: "field (clearSort cs) = None" by (simp add: clearSort_def)
  from toggleSort_field [of f cs] fold_toggleSort_field [of fs cs] last_cases ev ld cl
  show ?thesis by simp
qed

theorem toggleSort_never_clears_field_witness:
  "field (fst (toggleSort Price \<lparr>field = Some Title, direction = Desc\<rparr>)) = Some Price
   \<and> field (fold (\<lambda>f cs. fst (toggleSort f cs)) [Price, Price, Title]
         \<lparr>field = Some Title, direction = Desc\<rparr>) = Some Title
   \<and> field (currentSort example_session) = Some Price
   \<and> field (currentSort (handle example_host (SearchInput (code_units ''lamp'')) example_session)) \<noteq> None
   \<and> field (clearSort \<lparr>field = Some Title, direction = Desc\<rparr>) = None"
proof -
  note inst = toggleSort_never_clears_field
     [of Price "\<lparr>field = Some Title, direction = Desc\<rparr>" "[Price, Price, Title]"
         example_session example_host "SearchInput (code_units ''lamp'')" "[]"]
  have ne: "[Price, Price, Title] \<noteq> []" by simp
  have cur: "field (currentSort example_session) = Some Price" by code_simp
  from inst ne cur show ?thesis by simp
qed

end
